theory Spec2Isabelle
  imports Complex_Main "HOL-Library.Log_Nat"
begin

section \<open>The generation orchestrator of \<open>src/app/(main)/layout.tsx\<close>\<close>

text \<open>
  The component \<open>Home\<close> holds one session in a dozen \<open>useState\<close> cells and changes it
  through asynchronous handlers. The embedding below keeps the cells in one record,
  turns every handler into a function from the session (and the answers of the
  endpoints it calls) to the new session and the list of requests it sent, and turns
  every \<open>throw\<close> into a value that the handler's \<open>catch\<close> branch consumes.

  A handler is run from its first line to its last without another handler in between
  (the event loop interleaves handlers only at an \<open>await\<close>; such interleavings are
  not part of this development). The values a handler reads from its closure
  (\<open>prompt\<close>, \<open>model\<close>, \<open>aiSettings\<close>, \<open>generatedCode\<close>, \<open>refinementMessages\<close>,
  \<open>currentGeneratedAppId\<close>) are therefore the fields of the session it starts in.
\<close>

subsection \<open>Text\<close>

text \<open>
  A JavaScript string is a sequence of code units; \<^typ>\<open>string\<close> holds the code units
  below 256. \<open>String.prototype.trim\<close> removes the WhiteSpace and LineTerminator code
  points; below 256 these are TAB, LF, VT, FF, CR, SP and NBSP.
\<close>

definition isWhiteSpace :: "char \<Rightarrow> bool" where
  "isWhiteSpace c \<longleftrightarrow>
     c \<in> set [CHR 0x09, CHR 0x0A, CHR 0x0B, CHR 0x0C, CHR 0x0D, CHR 0x20, CHR 0xA0]"

definition trim :: "string \<Rightarrow> string" where
  "trim s = rev (dropWhile isWhiteSpace (rev (dropWhile isWhiteSpace s)))"

text \<open>
  The pattern of \<open>removeCodeFormatting\<close> is
  \<^verbatim>\<open>/```(?:typescript|javascript|tsx)?\n([\s\S]*?)```/g\<close>.
  A backtracking matcher tries it at one position as follows: three backticks; then
  the alternatives \<open>typescript\<close>, \<open>javascript\<close>, \<open>tsx\<close> in this order and at last
  the empty one (the group is optional and greedy); after the alternative a line
  feed; then the shortest run of arbitrary code units that is followed by three
  backticks. An alternative whose continuation fails gives way to the next one.
\<close>

fun stripPrefix :: "string \<Rightarrow> string \<Rightarrow> string option" where
  "stripPrefix [] s = Some s"
| "stripPrefix (p # ps) [] = None"
| "stripPrefix (p # ps) (c # cs) = (if p = c then stripPrefix ps cs else None)"

text \<open>\<^verbatim>\<open>([\s\S]*?)```\<close>: the captured text and what follows the closing backticks.\<close>

fun lazyUntilFence :: "string \<Rightarrow> (string \<times> string) option" where
  "lazyUntilFence [] = None"
| "lazyUntilFence (c # cs) =
     (case stripPrefix ''```'' (c # cs) of
        Some rest \<Rightarrow> Some ([], rest)
      | None \<Rightarrow> (case lazyUntilFence cs of
                   None \<Rightarrow> None
                 | Some (captured, rest) \<Rightarrow> Some (c # captured, rest)))"

fun firstSome :: "('a \<Rightarrow> 'b option) \<Rightarrow> 'a list \<Rightarrow> 'b option" where
  "firstSome f [] = None"
| "firstSome f (x # xs) = (case f x of Some y \<Rightarrow> Some y | None \<Rightarrow> firstSome f xs)"

definition matchAfterTag :: "string \<Rightarrow> string \<Rightarrow> (string \<times> string) option" where
  "matchAfterTag s tag =
     (case stripPrefix tag s of
        None \<Rightarrow> None
      | Some s1 \<Rightarrow> (case stripPrefix ''\<newline>'' s1 of
                     None \<Rightarrow> None
                   | Some s2 \<Rightarrow> lazyUntilFence s2))"

text \<open>One attempt of the whole pattern at the head of \<open>s\<close>: capture group 1 and the rest.\<close>

definition matchFence :: "string \<Rightarrow> (string \<times> string) option" where
  "matchFence s =
     (case stripPrefix ''```'' s of
        None \<Rightarrow> None
      | Some s0 \<Rightarrow>
          firstSome (matchAfterTag s0) [''typescript'', ''javascript'', ''tsx'', ''''])"

lemma stripPrefix_length: "stripPrefix p s = Some r \<Longrightarrow> length s = length p + length r"
  by (induction p s rule: stripPrefix.induct) (auto split: if_splits)

lemma lazyUntilFence_length: "lazyUntilFence s = Some (captured, r) \<Longrightarrow> length r < length s"
proof (induction s arbitrary: captured)
  case Nil
  then show ?case by simp
next
  case (Cons c cs)
  show ?case
  proof (cases "stripPrefix ''```'' (c # cs)")
    case (Some rest)
    with Cons.prems have "r = rest" by simp
    with stripPrefix_length [OF Some] show ?thesis by simp
  next
    case None
    with Cons.prems obtain captured' where "lazyUntilFence cs = Some (captured', r)"
      by (auto split: option.splits)
    with Cons.IH have "length r < length cs" by blast
    then show ?thesis by simp
  qed
qed

lemma matchAfterTag_length: "matchAfterTag s tag = Some (captured, r) \<Longrightarrow> length r < length s"
  unfolding matchAfterTag_def
  by (auto split: option.splits dest!: stripPrefix_length lazyUntilFence_length)

lemma firstSome_length:
  "firstSome (matchAfterTag s) tags = Some (captured, r) \<Longrightarrow> length r < length s"
  by (induction tags) (auto split: option.splits dest: matchAfterTag_length)

lemma matchFence_length:
  assumes "matchFence s = Some (captured, r)"
  shows "length r < length s"
proof -
  from assms obtain s0 where s0: "stripPrefix ''```'' s = Some s0"
    and m: "firstSome (matchAfterTag s0) [''typescript'', ''javascript'', ''tsx'', ''''] =
              Some (captured, r)"
    unfolding matchFence_def by (cases "stripPrefix ''```'' s") auto
  from firstSome_length [OF m] stripPrefix_length [OF s0] show ?thesis by simp
qed

text \<open>
  \<open>replace\<close> with the \<open>g\<close> flag and the replacement \<^verbatim>\<open>$1\<close>: scan from the left;
  where the pattern matches, emit the capture and go on behind the match (a match is
  never empty); elsewhere emit the code unit and go on one position to the right.
\<close>

function replaceFences :: "string \<Rightarrow> string" where
  "replaceFences [] = []"
| "replaceFences (c # cs) =
     (case matchFence (c # cs) of
        Some (captured, rest) \<Rightarrow> captured @ replaceFences rest
      | None \<Rightarrow> c # replaceFences cs)"
  by pat_completeness auto
termination
  by (relation "measure length") (auto dest: matchFence_length)

definition removeCodeFormatting :: "string \<Rightarrow> string" where
  "removeCodeFormatting code = trim (replaceFences code)"

subsection \<open>The data of a session\<close>

datatype Status = Initial | Creating | Created | Updating | Updated | Refining | Brainstorming

record message =
  role :: string
  content :: string

text \<open>
  The numeric settings are passed through to the endpoints and never computed with;
  they are rationals here (\<open>0.7\<close> is \<open>7/10\<close>). \<open>maxTokens\<close> is an integer.
\<close>

record AISettings =
  temperature :: rat
  maxTokens :: int
  topP :: rat
  streamOutput :: bool
  frequencyPenalty :: rat
  presencePenalty :: rat

text \<open>
  A JavaScript number is an IEEE-754 double. The token counts are the numbers the
  merge computes with; the type \<open>number\<close> holds the doubles of integer value
  (\<open>Integer n\<close> is the double whose value is \<open>n\<close>) and the three values that are not
  finite. Fractions lie outside the type: the statements about counts speak of
  integers.
\<close>

datatype number = Integer int | PosInfinity | NegInfinity | NaN

text \<open>
  The double nearest to an integer, ties to the even significand: below \<open>2^53\<close> in
  magnitude every integer is a double; from there on a double keeps the 53 leading
  bits, and the \<open>e\<close> bits below them are rounded away. A result of magnitude \<open>2^1024\<close>
  or more is an infinity.
\<close>

definition roundToDouble :: "int \<Rightarrow> number" where
  "roundToDouble n =
     (let a = \<bar>n\<bar>;
          e = (if a < 2 ^ 53 then 0 else nat (bitlen a - 53));
          q = 2 ^ e;
          d = a div q;
          r = a mod q;
          m = (if 2 * r < q then d else if q < 2 * r then d + 1
               else if even d then d else d + 1) * q
      in if 2 ^ 1024 \<le> m then (if 0 < n then PosInfinity else NegInfinity)
         else Integer (sgn n * m))"

text \<open>The operator \<open>+\<close> on numbers: the exact sum, rounded.\<close>

fun jsAdd :: "number \<Rightarrow> number \<Rightarrow> number" where
  "jsAdd (Integer a) (Integer b) = roundToDouble (a + b)"
| "jsAdd NaN y = NaN"
| "jsAdd x NaN = NaN"
| "jsAdd PosInfinity NegInfinity = NaN"
| "jsAdd NegInfinity PosInfinity = NaN"
| "jsAdd PosInfinity y = PosInfinity"
| "jsAdd x PosInfinity = PosInfinity"
| "jsAdd NegInfinity y = NegInfinity"
| "jsAdd x NegInfinity = NegInfinity"

text \<open>
  \<open>utilizationPercentage\<close> is a string. The analytics endpoint reports one; the merge
  replaces it by \<^verbatim>\<open>((total / max) * 100).toFixed(2)\<close>, a floating-point division and
  a decimal formatting that are kept symbolic: \<open>ToFixed2 total max\<close> stands for the
  string that expression yields.
\<close>

datatype utilization = Reported string | ToFixed2 number number

text \<open>
  The field \<open>maxTokens\<close> of \<open>TokenAnalytics\<close> is \<open>modelMaxTokens\<close> here, the name
  \<open>maxTokens\<close> being taken by \<open>AISettings\<close>.
\<close>

record TokenAnalytics =
  modelName :: string
  provider :: string
  promptTokens :: number
  responseTokens :: number
  totalTokens :: number
  modelMaxTokens :: number
  utilizationPercentage :: utilization

record CumulativeTokenAnalytics = TokenAnalytics +
  cumulativePromptTokens :: number
  cumulativeResponseTokens :: number
  cumulativeTotalTokens :: number

text \<open>The \<open>useState\<close> cells of \<open>Home\<close>, in the order of the source.\<close>

record session =
  status :: Status
  prompt :: string
  generatedCode :: string
  tokenAnalytics :: "CumulativeTokenAnalytics option"
  showAnalytics :: bool
  runtimeError :: "string option"
  model :: string
  messages :: "message list"
  currentGeneratedAppId :: "string option"
  chatVisible :: bool
  refinementMessages :: "message list"
  showSettings :: bool
  aiSettings :: AISettings

subsection \<open>Settings\<close>

definition getDefaultSettings :: "string \<Rightarrow> AISettings" where
  "getDefaultSettings p =
     \<lparr> temperature = (if p = ''deepseek'' then 0 else 7 / 10),
       maxTokens =
         (if p = ''anthropic'' then 200000
          else if p = ''openai'' then 64000
          else if p = ''google'' then 1000000
          else if p = ''deepseek'' then 32768
          else 200000),
       topP = 1,
       streamOutput = True,
       frequencyPenalty = 0,
       presencePenalty = 0 \<rparr>"

text \<open>
  The effect with the dependency \<open>[currentProvider]\<close>: React runs it after the first
  render and after every render in which \<open>currentProvider\<close> has changed. Its body is
  guarded by the truthiness of the provider name (a non-empty string) and updates the
  settings from their previous value.
\<close>

definition updateSettingsEffect :: "string \<Rightarrow> AISettings \<Rightarrow> AISettings" where
  "updateSettingsEffect currentProvider prev =
     (if currentProvider \<noteq> [] then
        prev\<lparr> temperature := (if currentProvider = ''deepseek'' then 0 else temperature prev),
              maxTokens :=
                (if currentProvider = ''anthropic'' then 200000
                 else if currentProvider = ''openai'' then 64000
                 else if currentProvider = ''google'' then 1000000
                 else if currentProvider = ''deepseek'' then 32768
                 else maxTokens prev) \<rparr>
      else prev)"

subsection \<open>Analytics merge\<close>

text \<open>The updater that \<open>updateTokenAnalytics\<close> hands to \<open>setTokenAnalytics\<close>.\<close>

definition mergeTokenAnalytics ::
  "CumulativeTokenAnalytics option \<Rightarrow> TokenAnalytics \<Rightarrow> CumulativeTokenAnalytics" where
  "mergeTokenAnalytics prevAnalytics newAnalytics =
     (case prevAnalytics of
        None \<Rightarrow>
          \<lparr> modelName = modelName newAnalytics,
            provider = provider newAnalytics,
            promptTokens = promptTokens newAnalytics,
            responseTokens = responseTokens newAnalytics,
            totalTokens = totalTokens newAnalytics,
            modelMaxTokens = modelMaxTokens newAnalytics,
            utilizationPercentage =
              ToFixed2 (totalTokens newAnalytics) (modelMaxTokens newAnalytics),
            cumulativePromptTokens = promptTokens newAnalytics,
            cumulativeResponseTokens = responseTokens newAnalytics,
            cumulativeTotalTokens = totalTokens newAnalytics \<rparr>
      | Some prev \<Rightarrow>
          (let cumulativePrompt =
                 jsAdd (cumulativePromptTokens prev) (promptTokens newAnalytics);
               cumulativeResponse =
                 jsAdd (cumulativeResponseTokens prev) (responseTokens newAnalytics);
               cumulativeTotal = jsAdd cumulativePrompt cumulativeResponse
           in \<lparr> modelName = modelName newAnalytics,
                provider = provider newAnalytics,
                promptTokens = promptTokens newAnalytics,
                responseTokens = responseTokens newAnalytics,
                totalTokens = totalTokens newAnalytics,
                modelMaxTokens = modelMaxTokens newAnalytics,
                utilizationPercentage = ToFixed2 cumulativeTotal (modelMaxTokens newAnalytics),
                cumulativePromptTokens = cumulativePrompt,
                cumulativeResponseTokens = cumulativeResponse,
                cumulativeTotalTokens = cumulativeTotal \<rparr>))"

definition updateTokenAnalytics :: "TokenAnalytics \<Rightarrow> session \<Rightarrow> session" where
  "updateTokenAnalytics newAnalytics s =
     s\<lparr> tokenAnalytics := Some (mergeTokenAnalytics (tokenAnalytics s) newAnalytics),
        showAnalytics := True \<rparr>"

subsection \<open>Endpoints\<close>

text \<open>
  What an endpoint answers is an input of the handler. A streamed answer: \<open>fetch\<close>
  rejects, or resolves to a response with its \<open>ok\<close> flag, its \<open>statusText\<close> and its
  body (\<open>None\<close> for a null body); a body is the texts that
  \<^verbatim>\<open>new TextDecoder().decode(value)\<close> yields for the chunks read, in order, and
  how reading ends: \<open>done\<close>, or a \<open>read()\<close> that rejects.
\<close>

datatype streamEnd = Done | ReadRejects

datatype streamResponse =
    StreamFetchRejects
  | StreamResponse bool string "(string list \<times> streamEnd) option"

text \<open>
  A JSON answer: \<open>fetch\<close> rejects, or resolves to a response with its \<open>ok\<close> flag and
  the value that \<open>json()\<close> resolves to (\<open>None\<close> when it rejects). The generated-app
  store answers with an object of which the handler reads \<open>id\<close> (\<open>None\<close> when the
  property is absent or null).
\<close>

datatype 'a jsonResponse =
    JsonFetchRejects
  | JsonResponse bool "'a option"

datatype request =
    GenerateCode string "message list" AISettings
  | GenerateIdea string AISettings
  | RefinePrompt string string AISettings
  | GeneratedApps string string string
  | TokenAnalyticsRequest string string string "string option"

datatype error = FetchError | HttpError string | ReadError | SaveError string | JsonError

text \<open>
  \<^verbatim>\<open>if (!res.ok || !res.body) throw new Error(res.statusText || fallback)\<close>,
  after the \<open>await fetch\<close> that may itself reject.
\<close>

definition openStream :: "string \<Rightarrow> streamResponse \<Rightarrow> error + (string list \<times> streamEnd)" where
  "openStream fallback res =
     (case res of
        StreamFetchRejects \<Rightarrow> Inl FetchError
      | StreamResponse ok statusText body \<Rightarrow>
          (case body of
             None \<Rightarrow> Inl (HttpError (if statusText = [] then fallback else statusText))
           | Some b \<Rightarrow>
               if \<not> ok then Inl (HttpError (if statusText = [] then fallback else statusText))
               else Inr b))"

subsection \<open>Streaming response accumulator\<close>

text \<open>
  The read loop of \<open>createApp\<close> and \<open>handleChatMessage\<close>: every chunk is appended to
  \<open>receivedData\<close>, and \<open>generatedCode\<close> is set to the whole buffer with its fences
  removed.
\<close>

fun readCode :: "string \<Rightarrow> session \<Rightarrow> string list \<Rightarrow> string \<times> session" where
  "readCode receivedData s [] = (receivedData, s)"
| "readCode receivedData s (v # vs) =
     (let receivedData' = receivedData @ v;
          cleanedData = removeCodeFormatting receivedData'
      in readCode receivedData' (s\<lparr>generatedCode := cleanedData\<rparr>) vs)"

text \<open>The read loop of \<open>generateAppIdea\<close> and \<open>refinePrompt\<close>: plain concatenation.\<close>

fun readText :: "string \<Rightarrow> string list \<Rightarrow> string" where
  "readText acc [] = acc"
| "readText acc (v # vs) = readText (acc @ v) vs"

subsection \<open>Chat refinement\<close>

text \<open>
  A JavaScript value used as a condition: \<open>null\<close>, \<open>undefined\<close> and the empty string
  are falsy.
\<close>

fun truthy :: "string option \<Rightarrow> bool" where
  "truthy None = False"
| "truthy (Some v) = (v \<noteq> [])"

text \<open>
  The \<open>try\<close> block of \<open>handleChatMessage\<close>. \<open>s0\<close> is the session the handler was
  called in (its closure), \<open>s\<close> the session after \<open>setStatus("updating")\<close>. \<open>Inl\<close>
  is a \<open>throw\<close>, with the session and the requests at that moment.
\<close>

definition handleChatMessage_try ::
  "streamResponse \<Rightarrow> TokenAnalytics jsonResponse \<Rightarrow> string \<Rightarrow> session \<Rightarrow> session \<Rightarrow>
     (error \<times> session \<times> request list) + (session \<times> request list)" where
  "handleChatMessage_try res analyticsRes msg s0 s =
     (let updatedMessages = refinementMessages s0 @ [\<lparr>role = ''user'', content = msg\<rparr>];
          r1 = GenerateCode (model s0)
                 (\<lparr>role = ''system'', content = ''Previous code: '' @ generatedCode s0\<rparr>
                    # updatedMessages)
                 (aiSettings s0)
      in case openStream ''Failed to update code'' res of
           Inl e \<Rightarrow> Inl (e, s, [r1])
         | Inr (chunks, ending) \<Rightarrow>
             (case readCode [] s chunks of (receivedData, s2) \<Rightarrow>
               (case ending of
                  ReadRejects \<Rightarrow> Inl (ReadError, s2, [r1])
                | Done \<Rightarrow>
                    (let s3 = s2\<lparr>refinementMessages := updatedMessages, status := Created\<rparr>
                     in if truthy (currentGeneratedAppId s0) then
                          (let r2 = TokenAnalyticsRequest (model s0) msg receivedData
                                      (currentGeneratedAppId s0)
                           in case analyticsRes of
                                JsonFetchRejects \<Rightarrow> Inl (FetchError, s3, [r1, r2])
                              | JsonResponse ok v \<Rightarrow>
                                  if ok then
                                    (case v of
                                       None \<Rightarrow> Inl (JsonError, s3, [r1, r2])
                                     | Some analytics \<Rightarrow>
                                         Inr (updateTokenAnalytics analytics s3, [r1, r2]))
                                  else Inr (s3, [r1, r2]))
                        else Inr (s3, [r1])))))"

definition handleChatMessage ::
  "streamResponse \<Rightarrow> TokenAnalytics jsonResponse \<Rightarrow> string \<Rightarrow> session \<Rightarrow>
     session \<times> request list" where
  "handleChatMessage res analyticsRes msg s =
     (if generatedCode s = [] \<or> status s \<noteq> Created then (s, [])
      else
        (case handleChatMessage_try res analyticsRes msg s (s\<lparr>status := Updating\<rparr>) of
           Inl (e, s', rs) \<Rightarrow> (s'\<lparr>status := Created\<rparr>, rs)
         | Inr (s', rs) \<Rightarrow> (s', rs)))"

subsection \<open>Prompt-assist actions\<close>

definition generateAppIdea_try ::
  "streamResponse \<Rightarrow> session \<Rightarrow> session \<Rightarrow>
     (error \<times> session \<times> request list) + (session \<times> request list)" where
  "generateAppIdea_try res s0 s =
     (let r1 = GenerateIdea (model s0) (aiSettings s0)
      in case openStream ''Failed to generate idea'' res of
           Inl e \<Rightarrow> Inl (e, s, [r1])
         | Inr (chunks, ending) \<Rightarrow>
             (let newIdea = readText [] chunks
              in case ending of
                   ReadRejects \<Rightarrow> Inl (ReadError, s, [r1])
                 | Done \<Rightarrow> Inr (s\<lparr>prompt := trim newIdea\<rparr>, [r1])))"

text \<open>\<open>catch\<close> only logs; \<open>finally\<close> sets the status on both paths.\<close>

definition generateAppIdea :: "streamResponse \<Rightarrow> session \<Rightarrow> session \<times> request list" where
  "generateAppIdea res s =
     (if status s \<noteq> Initial then (s, [])
      else
        (case generateAppIdea_try res s (s\<lparr>status := Brainstorming\<rparr>) of
           Inl (e, s', rs) \<Rightarrow> (s'\<lparr>status := Initial\<rparr>, rs)
         | Inr (s', rs) \<Rightarrow> (s'\<lparr>status := Initial\<rparr>, rs)))"

definition refinePrompt_try ::
  "streamResponse \<Rightarrow> session \<Rightarrow> session \<Rightarrow>
     (error \<times> session \<times> request list) + (session \<times> request list)" where
  "refinePrompt_try res s0 s =
     (let r1 = RefinePrompt (model s0) (prompt s0) (aiSettings s0)
      in case openStream ''Failed to refine prompt'' res of
           Inl e \<Rightarrow> Inl (e, s, [r1])
         | Inr (chunks, ending) \<Rightarrow>
             (let refinedPrompt = readText [] chunks
              in case ending of
                   ReadRejects \<Rightarrow> Inl (ReadError, s, [r1])
                 | Done \<Rightarrow> Inr (s\<lparr>prompt := trim refinedPrompt\<rparr>, [r1])))"

definition refinePrompt :: "streamResponse \<Rightarrow> session \<Rightarrow> session \<times> request list" where
  "refinePrompt res s =
     (if prompt s = [] \<or> status s \<noteq> Initial then (s, [])
      else
        (case refinePrompt_try res s (s\<lparr>status := Refining\<rparr>) of
           Inl (e, s', rs) \<Rightarrow> (s'\<lparr>status := Initial\<rparr>, rs)
         | Inr (s', rs) \<Rightarrow> (s'\<lparr>status := Initial\<rparr>, rs)))"

subsection \<open>Fresh creation\<close>

text \<open>The setter calls between the entry guard and the \<open>try\<close> block.\<close>

definition createApp_reset :: "session \<Rightarrow> session" where
  "createApp_reset s =
     s\<lparr> status := Creating,
        generatedCode := [],
        showAnalytics := False,
        tokenAnalytics := None,
        chatVisible := False,
        refinementMessages := [],
        messages := [\<lparr>role = ''user'', content = prompt s\<rparr>] \<rparr>"

text \<open>
  The \<open>try\<close> block of \<open>createApp\<close>; \<open>s0\<close> is the session of the closure, \<open>s\<close> the
  session after the reset. \<open>scrollTo\<close> is a signal to the view and is left out.
\<close>

definition createApp_try ::
  "streamResponse \<Rightarrow> string option jsonResponse \<Rightarrow> TokenAnalytics jsonResponse \<Rightarrow>
     session \<Rightarrow> session \<Rightarrow> (error \<times> session \<times> request list) + (session \<times> request list)" where
  "createApp_try res generatedAppResponse analyticsRes s0 s =
     (let r1 = GenerateCode (model s0) [\<lparr>role = ''user'', content = prompt s0\<rparr>] (aiSettings s0)
      in case openStream ''Failed to generate code'' res of
           Inl e \<Rightarrow> Inl (e, s, [r1])
         | Inr (chunks, ending) \<Rightarrow>
             (case readCode [] s chunks of (receivedData, s2) \<Rightarrow>
               (case ending of
                  ReadRejects \<Rightarrow> Inl (ReadError, s2, [r1])
                | Done \<Rightarrow>
                    (let r2 = GeneratedApps (model s0) (prompt s0) receivedData
                     in case generatedAppResponse of
                          JsonFetchRejects \<Rightarrow> Inl (FetchError, s2, [r1, r2])
                        | JsonResponse ok v \<Rightarrow>
                            if \<not> ok then
                              Inl (SaveError ''Failed to save generated app'', s2, [r1, r2])
                            else
                              (case v of
                                 None \<Rightarrow> Inl (JsonError, s2, [r1, r2])
                               | Some generatedAppId \<Rightarrow>
                                   (let s3 = s2\<lparr>currentGeneratedAppId := generatedAppId\<rparr>;
                                        r3 = TokenAnalyticsRequest (model s0) (prompt s0)
                                               receivedData generatedAppId
                                    in case analyticsRes of
                                         JsonFetchRejects \<Rightarrow> Inl (FetchError, s3, [r1, r2, r3])
                                       | JsonResponse aok av \<Rightarrow>
                                           if aok then
                                             (case av of
                                                None \<Rightarrow> Inl (JsonError, s3, [r1, r2, r3])
                                              | Some analytics \<Rightarrow>
                                                  Inr ((updateTokenAnalytics analytics s3)
                                                         \<lparr>status := Created, chatVisible := True\<rparr>,
                                                       [r1, r2, r3]))
                                           else
                                             Inr (s3\<lparr>status := Created, chatVisible := True\<rparr>,
                                                  [r1, r2, r3])))))))"

definition createApp ::
  "streamResponse \<Rightarrow> string option jsonResponse \<Rightarrow> TokenAnalytics jsonResponse \<Rightarrow>
     session \<Rightarrow> session \<times> request list" where
  "createApp res generatedAppResponse analyticsRes s =
     (if prompt s = [] \<or> status s \<noteq> Initial then (s, [])
      else
        (case createApp_try res generatedAppResponse analyticsRes s (createApp_reset s) of
           Inl (e, s', rs) \<Rightarrow> (s'\<lparr>status := Initial\<rparr>, rs)
         | Inr (s', rs) \<Rightarrow> (s', rs)))"

subsection \<open>Loading a saved generation\<close>

text \<open>
  Of a \<open>SavedGeneration\<close> the handler reads the embedded \<open>generatedApp\<close> only. The
  fields carry the prefix \<open>app\<close>, the plain names being fields of the session.
\<close>

record GeneratedApp =
  appId :: string
  appCode :: string
  appModel :: string
  appPrompt :: string

record SavedGeneration =
  savedId :: string
  title :: string
  description :: "string option"
  createdAt :: string
  generatedApp :: GeneratedApp

text \<open>
  The setters in the order of the source. \<open>setAISettings(aiSettings)\<close> writes the
  value of the closure back.
\<close>

definition handleLoadGeneration :: "SavedGeneration \<Rightarrow> session \<Rightarrow> session \<times> request list" where
  "handleLoadGeneration generation s =
     (let s1 = s\<lparr>generatedCode := appCode (generatedApp generation)\<rparr>;
          s2 = s1\<lparr>prompt := appPrompt (generatedApp generation)\<rparr>;
          s3 = s2\<lparr>model := appModel (generatedApp generation)\<rparr>;
          s4 = s3\<lparr>aiSettings := aiSettings s\<rparr>;
          s5 = s4\<lparr>currentGeneratedAppId := Some (appId (generatedApp generation))\<rparr>;
          s6 = s5\<lparr>status := Created\<rparr>;
          s7 = s6\<lparr>chatVisible := True\<rparr>
      in (s7, []))"

subsection \<open>Concrete sessions and answers\<close>

text \<open>
  The initial values of the \<open>useState\<close> cells. The first model and the first provider
  come from the configuration (\<open>AI_PROVIDERS\<close>, \<open>ENABLED_PROVIDERS\<close>) and are
  arguments here.
\<close>

definition initialSession :: "string \<Rightarrow> string \<Rightarrow> session" where
  "initialSession firstModel initialProvider =
     \<lparr> status = Initial, prompt = [], generatedCode = [], tokenAnalytics = None,
       showAnalytics = False, runtimeError = None, model = firstModel, messages = [],
       currentGeneratedAppId = None, chatVisible = False, refinementMessages = [],
       showSettings = False, aiSettings = getDefaultSettings initialProvider \<rparr>"

text \<open>An answer of the analytics endpoint with the given prompt, response and total counts.\<close>

definition exchange :: "int \<Rightarrow> int \<Rightarrow> int \<Rightarrow> TokenAnalytics" where
  "exchange p r t =
     \<lparr> modelName = ''gpt'', provider = ''openai'', promptTokens = Integer p,
       responseTokens = Integer r, totalTokens = Integer t, modelMaxTokens = Integer 64000,
       utilizationPercentage = Reported ''0.05'' \<rparr>"

definition userSession :: "Status \<Rightarrow> string \<Rightarrow> string \<Rightarrow> string option \<Rightarrow> session" where
  "userSession st p code savedApp =
     (initialSession ''gpt'' ''openai'')
       \<lparr> status := st, prompt := p, generatedCode := code, currentGeneratedAppId := savedApp \<rparr>"

text \<open>
  Three answers of a streaming endpoint: a fenced block in two chunks, a stream whose
  second \<open>read()\<close> is followed by a rejection, and plain text in three chunks.
\<close>

definition fencedAnswer :: streamResponse where
  "fencedAnswer = StreamResponse True ''OK'' (Some ([''```ts'', ''x\<newline>foo\<newline>```''], Done))"

definition brokenAnswer :: streamResponse where
  "brokenAnswer = StreamResponse True ''OK'' (Some ([''```ts'', ''x\<newline>fo''], ReadRejects))"

definition plainAnswer :: streamResponse where
  "plainAnswer = StreamResponse True ''OK'' (Some (['' A todo '', ''list '', ''app\<newline>''], Done))"

definition savedCalculator :: SavedGeneration where
  "savedCalculator =
     \<lparr> savedId = ''gen7'', title = ''Calculator'', description = None,
       createdAt = ''2025-01-01'',
       generatedApp = \<lparr> appId = ''app7'', appCode = ''export default 1'',
                        appModel = ''claude'', appPrompt = ''a calculator'' \<rparr> \<rparr>"

subsection \<open>Notions of the statements\<close>

text \<open>
  A safe integer (\<open>Number.isSafeInteger\<close>) has a magnitude of at most \<open>2^53 - 1\<close>.
\<close>

definition safeInteger :: "int \<Rightarrow> bool" where
  "safeInteger n \<longleftrightarrow> \<bar>n\<bar> < 2 ^ 53"

text \<open>A text has a fence when three backticks in a row occur in it.\<close>

fun hasFence :: "string \<Rightarrow> bool" where
  "hasFence [] = False"
| "hasFence (c # cs) = (stripPrefix ''```'' (c # cs) \<noteq> None \<or> hasFence cs)"

text \<open>
  A streamed answer completes when the response is \<open>ok\<close>, has a body, and the body is
  read to its end; \<open>completedChunks\<close> gives the chunks of such an answer. Every other
  answer makes the handler \<open>throw\<close> before the read loop is left.
\<close>

fun completedChunks :: "streamResponse \<Rightarrow> string list option" where
  "completedChunks StreamFetchRejects = None"
| "completedChunks (StreamResponse ok statusText body) =
     (case body of
        None \<Rightarrow> None
      | Some (chunks, ending) \<Rightarrow> if ok \<and> ending = Done then Some chunks else None)"

text \<open>
  The persistence call of a fresh creation succeeds when the code stream completes and
  the store answers \<open>ok\<close> with a body that parses; \<open>persistedId\<close> is then the \<open>id\<close> of
  that body.
\<close>

definition persistedId :: "streamResponse \<Rightarrow> string option jsonResponse \<Rightarrow> string option option" where
  "persistedId res generatedAppResponse =
     (case completedChunks res of
        None \<Rightarrow> None
      | Some chunks \<Rightarrow>
          (case generatedAppResponse of
             JsonFetchRejects \<Rightarrow> None
           | JsonResponse ok v \<Rightarrow> if ok then v else None))"

section \<open>Auxiliary facts\<close>

subsection \<open>Addition of safe integers\<close>

lemma roundToDouble_safe:
  assumes "safeInteger n"
  shows "roundToDouble n = Integer n"
proof -
  from assms have a: "\<bar>n\<bar> < 2 ^ 53" by (simp add: safeInteger_def)
  have "(2::int) ^ 53 < 2 ^ 1024" by simp
  with a have b: "\<not> (2::int) ^ 1024 \<le> \<bar>n\<bar>" by linarith
  have "sgn n * \<bar>n\<bar> = n" by (simp add: sgn_if)
  with a b show ?thesis by (simp add: roundToDouble_def)
qed

subsection \<open>The read loops and the opening of a stream\<close>

lemma readCode_result:
  "readCode r s cs =
     (r @ concat cs,
      if cs = [] then s else s\<lparr>generatedCode := removeCodeFormatting (r @ concat cs)\<rparr>)"
  by (induction cs arbitrary: r s) (simp_all add: Let_def)

lemma readText_concat: "readText acc cs = acc @ concat cs"
  by (induction cs arbitrary: acc) simp_all

lemma readCode_session: "\<exists>code. readCode r s cs = (r @ concat cs, s\<lparr>generatedCode := code\<rparr>)"
proof (cases "cs = []")
  case True
  then have "readCode r s cs = (r @ concat cs, s\<lparr>generatedCode := generatedCode s\<rparr>)"
    by simp
  then show ?thesis ..
next
  case False
  then show ?thesis by (auto simp: readCode_result)
qed

lemma openStream_completed:
  "completedChunks res = Some chunks \<Longrightarrow> openStream fallback res = Inr (chunks, Done)"
  by (cases res) (auto simp: openStream_def split: option.splits if_splits)

lemma openStream_failed:
  "completedChunks res = None \<Longrightarrow>
   (\<exists>e. openStream fallback res = Inl e) \<or>
   (\<exists>chunks. openStream fallback res = Inr (chunks, ReadRejects))"
proof (cases res)
  case StreamFetchRejects
  then show ?thesis by (simp add: openStream_def)
next
  case (StreamResponse ok statusText body)
  assume c: "completedChunks res = None"
  show ?thesis
  proof (cases body)
    case None
    with StreamResponse show ?thesis by (simp add: openStream_def)
  next
    case (Some b)
    obtain chunks ending where b: "b = (chunks, ending)" by (cases b)
    show ?thesis
    proof (cases ok)
      case False
      with StreamResponse Some show ?thesis by (simp add: openStream_def)
    next
      case True
      with c StreamResponse Some b have "ending = ReadRejects"
        by (cases ending) simp_all
      with True StreamResponse Some b show ?thesis by (simp add: openStream_def)
    qed
  qed
qed

subsection \<open>Fences\<close>

lemma matchFence_no_backtick: "c \<noteq> CHR 0x60 \<Longrightarrow> matchFence (c # cs) = None"
  by (simp add: matchFence_def)

lemma replaceFences_plain_prefix:
  "\<forall>c \<in> set pre. c \<noteq> CHR 0x60 \<Longrightarrow> replaceFences (pre @ x) = pre @ replaceFences x"
  by (induction pre) (simp_all add: matchFence_no_backtick)

lemma isWhiteSpace_not_backtick: "isWhiteSpace c \<Longrightarrow> c \<noteq> CHR 0x60"
  by (auto simp: isWhiteSpace_def)

lemma trim_surrounded:
  assumes pre: "\<forall>c \<in> set pre. isWhiteSpace c" and post: "\<forall>c \<in> set post. isWhiteSpace c"
  shows "trim (pre @ x @ post) = trim x"
proof -
  have a: "dropWhile isWhiteSpace (pre @ x @ post) = dropWhile isWhiteSpace (x @ post)"
    using pre by simp
  show ?thesis
  proof (cases "\<forall>c \<in> set x. isWhiteSpace c")
    case True
    with post have "\<forall>c \<in> set (x @ post). isWhiteSpace c" by auto
    then have "dropWhile isWhiteSpace (x @ post) = []"
      by (simp only: dropWhile_eq_Nil_conv)
    moreover from True have "dropWhile isWhiteSpace x = []"
      by (simp only: dropWhile_eq_Nil_conv)
    ultimately show ?thesis using a by (simp only: trim_def)
  next
    case False
    then obtain c where "c \<in> set x" "\<not> isWhiteSpace c" by blast
    then have "dropWhile isWhiteSpace (x @ post) = dropWhile isWhiteSpace x @ post"
      by simp
    moreover from post have
      "dropWhile isWhiteSpace (rev post @ rev (dropWhile isWhiteSpace x)) =
         dropWhile isWhiteSpace (rev (dropWhile isWhiteSpace x))"
      by (intro dropWhile_append2) simp
    ultimately show ?thesis using a by (simp add: trim_def)
  qed
qed

lemma hasFence_plain: "\<forall>c \<in> set post. c \<noteq> CHR 0x60 \<Longrightarrow> \<not> hasFence post"
  by (induction post) auto

lemma replaceFences_no_fence: "\<not> hasFence s \<Longrightarrow> replaceFences s = s"
proof (induction s)
  case Nil
  show ?case by simp
next
  case (Cons c cs)
  then have "stripPrefix ''```'' (c # cs) = None" and "replaceFences cs = cs" by simp_all
  then show ?case by (simp add: matchFence_def)
qed

lemma hasFence_backticks_plain:
  assumes "\<forall>c \<in> set post. c \<noteq> CHR 0x60"
  shows "\<not> hasFence (CHR 0x60 # post)" and "\<not> hasFence (CHR 0x60 # CHR 0x60 # post)"
proof -
  have p: "\<not> hasFence post" by (rule hasFence_plain [OF assms])
  show "\<not> hasFence (CHR 0x60 # post)"
  proof (cases post)
    case Nil
    then show ?thesis by simp
  next
    case (Cons d ds)
    with assms p show ?thesis by auto
  qed
  show "\<not> hasFence (CHR 0x60 # CHR 0x60 # post)"
  proof (cases post)
    case Nil
    then show ?thesis by simp
  next
    case (Cons d ds)
    with assms p show ?thesis by auto
  qed
qed

lemma lazyUntilFence_block:
  assumes "\<forall>c \<in> set post. c \<noteq> CHR 0x60"
  shows "\<not> hasFence inner \<Longrightarrow>
         \<exists>x r. lazyUntilFence (inner @ ''```'' @ post) = Some (x, r) \<and> x @ r = inner @ post \<and>
               \<not> hasFence r"
proof (induction inner)
  case Nil
  from hasFence_plain [OF assms] show ?case by simp
next
  case (Cons c cs)
  from Cons.prems have no: "stripPrefix ''```'' (c # cs) = None" and rest: "\<not> hasFence cs"
    by simp_all
  show ?case
  proof (cases "stripPrefix ''```'' (c # cs @ ''```'' @ post)")
    case None
    from Cons.IH [OF rest] obtain x r where
      "lazyUntilFence (cs @ ''```'' @ post) = Some (x, r)" "x @ r = cs @ post" "\<not> hasFence r"
      by blast
    with None show ?thesis by simp
  next
    case (Some r)
    have "cs = [] \<or> cs = [CHR 0x60]"
    proof (cases cs)
      case Nil
      then show ?thesis by simp
    next
      case (Cons d ds)
      note cs = this
      show ?thesis
      proof (cases ds)
        case Nil
        with cs Some show ?thesis by (auto split: if_splits)
      next
        case (Cons e es)
        with cs Some no show ?thesis by (auto split: if_splits)
      qed
    qed
    then show ?thesis
    proof
      assume "cs = []"
      with Some hasFence_backticks_plain(1) [OF assms] show ?thesis
        by (auto split: if_splits)
    next
      assume "cs = [CHR 0x60]"
      with Some hasFence_backticks_plain(2) [OF assms] show ?thesis
        by (auto split: if_splits)
    qed
  qed
qed

lemma matchFence_block:
  assumes tag: "tag \<in> {'''', ''typescript'', ''javascript'', ''tsx''}"
    and inner: "\<not> hasFence inner" and post: "\<forall>c \<in> set post. c \<noteq> CHR 0x60"
  shows "\<exists>x r. matchFence (''```'' @ tag @ ''\<newline>'' @ inner @ ''```'' @ post) = Some (x, r) \<and>
               x @ r = inner @ post \<and> \<not> hasFence r"
proof -
  from lazyUntilFence_block [OF post inner] obtain x r where
    l: "lazyUntilFence (inner @ ''```'' @ post) = Some (x, r)"
    and xr: "x @ r = inner @ post" "\<not> hasFence r" by blast
  from tag consider "tag = ''''" | "tag = ''typescript''" | "tag = ''javascript''"
    | "tag = ''tsx''" by auto
  then have "matchFence (''```'' @ tag @ ''\<newline>'' @ inner @ ''```'' @ post) = Some (x, r)"
  proof cases
    case 1
    then show ?thesis using l by (simp add: matchFence_def matchAfterTag_def)
  next
    case 2
    then show ?thesis using l by (simp add: matchFence_def matchAfterTag_def)
  next
    case 3
    then show ?thesis using l by (simp add: matchFence_def matchAfterTag_def)
  next
    case 4
    then show ?thesis using l by (simp add: matchFence_def matchAfterTag_def)
  qed
  with xr show ?thesis by blast
qed

lemma removeCodeFormatting_block:
  assumes tag: "tag \<in> {'''', ''typescript'', ''javascript'', ''tsx''}"
    and wpre: "\<forall>c \<in> set pre. isWhiteSpace c" and wpost: "\<forall>c \<in> set post. isWhiteSpace c"
    and inner: "\<not> hasFence inner"
  shows "removeCodeFormatting (pre @ ''```'' @ tag @ ''\<newline>'' @ inner @ ''```'' @ post) =
           trim inner"
proof -
  have pre: "\<forall>c \<in> set pre. c \<noteq> CHR 0x60" and post: "\<forall>c \<in> set post. c \<noteq> CHR 0x60"
    using wpre wpost isWhiteSpace_not_backtick by blast+
  from matchFence_block [OF tag inner post] obtain x r where
    m: "matchFence (''```'' @ tag @ ''\<newline>'' @ inner @ ''```'' @ post) = Some (x, r)"
    and xr: "x @ r = inner @ post" and r: "\<not> hasFence r" by blast
  from m have "matchFence (CHR 0x60 # ''``'' @ tag @ ''\<newline>'' @ inner @ ''```'' @ post) =
                 Some (x, r)" by simp
  then have "replaceFences (''```'' @ tag @ ''\<newline>'' @ inner @ ''```'' @ post) =
               x @ replaceFences r" by simp
  also have "\<dots> = inner @ post" using replaceFences_no_fence [OF r] xr by simp
  finally have
    "replaceFences (pre @ ''```'' @ tag @ ''\<newline>'' @ inner @ ''```'' @ post) =
       pre @ inner @ post"
    using replaceFences_plain_prefix [OF pre] by simp
  then show ?thesis
    using trim_surrounded [OF wpre wpost] by (simp add: removeCodeFormatting_def)
qed

subsection \<open>The \<open>try\<close> blocks by the outcome of the stream\<close>

lemma createApp_completed:
  assumes "prompt s \<noteq> []" and "status s = Initial" and "completedChunks res = Some chunks"
  shows "createApp_try res generatedAppResponse analyticsRes s (createApp_reset s) =
     (let s2 = (createApp_reset s)\<lparr>generatedCode := removeCodeFormatting (concat chunks)\<rparr>;
          r1 = GenerateCode (model s) [\<lparr>role = ''user'', content = prompt s\<rparr>] (aiSettings s);
          r2 = GeneratedApps (model s) (prompt s) (concat chunks)
      in case generatedAppResponse of
           JsonFetchRejects \<Rightarrow> Inl (FetchError, s2, [r1, r2])
         | JsonResponse ok v \<Rightarrow>
             if \<not> ok then Inl (SaveError ''Failed to save generated app'', s2, [r1, r2])
             else
               (case v of
                  None \<Rightarrow> Inl (JsonError, s2, [r1, r2])
                | Some newId \<Rightarrow>
                    (let s3 = s2\<lparr>currentGeneratedAppId := newId\<rparr>;
                         r3 = TokenAnalyticsRequest (model s) (prompt s) (concat chunks) newId
                     in case analyticsRes of
                          JsonFetchRejects \<Rightarrow> Inl (FetchError, s3, [r1, r2, r3])
                        | JsonResponse aok av \<Rightarrow>
                            if aok then
                              (case av of
                                 None \<Rightarrow> Inl (JsonError, s3, [r1, r2, r3])
                               | Some analytics \<Rightarrow>
                                   Inr ((updateTokenAnalytics analytics s3)
                                          \<lparr>status := Created, chatVisible := True\<rparr>,
                                        [r1, r2, r3]))
                            else Inr (s3\<lparr>status := Created, chatVisible := True\<rparr>,
                                      [r1, r2, r3]))))"
proof -
  have "removeCodeFormatting [] = []"
    by (simp add: removeCodeFormatting_def trim_def)
  then have "readCode [] (createApp_reset s) chunks =
      (concat chunks, (createApp_reset s)\<lparr>generatedCode := removeCodeFormatting (concat chunks)\<rparr>)"
    by (cases "chunks = []") (simp_all add: readCode_result createApp_reset_def)
  then show ?thesis
    unfolding createApp_try_def openStream_completed [OF assms(3)] by (simp add: Let_def)
qed

lemma createApp_incomplete:
  assumes "completedChunks res = None"
  shows "\<exists>e code. createApp_try res generatedAppResponse analyticsRes s s1 =
           Inl (e, s1\<lparr>generatedCode := code\<rparr>,
                [GenerateCode (model s) [\<lparr>role = ''user'', content = prompt s\<rparr>] (aiSettings s)])"
proof -
  from openStream_failed [OF assms, of "''Failed to generate code''"]
  show ?thesis
  proof
    assume "\<exists>e. openStream ''Failed to generate code'' res = Inl e"
    then obtain e where "openStream ''Failed to generate code'' res = Inl e" ..
    then have "createApp_try res generatedAppResponse analyticsRes s s1 =
        Inl (e, s1\<lparr>generatedCode := generatedCode s1\<rparr>,
             [GenerateCode (model s) [\<lparr>role = ''user'', content = prompt s\<rparr>] (aiSettings s)])"
      by (simp add: createApp_try_def)
    then show ?thesis by blast
  next
    assume "\<exists>chunks. openStream ''Failed to generate code'' res = Inr (chunks, ReadRejects)"
    then obtain chunks where
      o: "openStream ''Failed to generate code'' res = Inr (chunks, ReadRejects)" ..
    obtain code where
      "readCode [] s1 chunks = ([] @ concat chunks, s1\<lparr>generatedCode := code\<rparr>)"
      using readCode_session by blast
    with o have "createApp_try res generatedAppResponse analyticsRes s s1 =
        Inl (ReadError, s1\<lparr>generatedCode := code\<rparr>,
             [GenerateCode (model s) [\<lparr>role = ''user'', content = prompt s\<rparr>] (aiSettings s)])"
      by (simp add: createApp_try_def)
    then show ?thesis by blast
  qed
qed

lemma handleChatMessage_incomplete:
  assumes "completedChunks res = None"
  shows "\<exists>e code rs. handleChatMessage_try res analyticsRes msg s s1 =
           Inl (e, s1\<lparr>generatedCode := code\<rparr>, rs)"
proof -
  from openStream_failed [OF assms, of "''Failed to update code''"]
  show ?thesis
  proof
    assume "\<exists>e. openStream ''Failed to update code'' res = Inl e"
    then obtain e where "openStream ''Failed to update code'' res = Inl e" ..
    then have "\<exists>rs. handleChatMessage_try res analyticsRes msg s s1 =
        Inl (e, s1\<lparr>generatedCode := generatedCode s1\<rparr>, rs)"
      by (simp add: handleChatMessage_try_def Let_def)
    then show ?thesis by blast
  next
    assume "\<exists>chunks. openStream ''Failed to update code'' res = Inr (chunks, ReadRejects)"
    then obtain chunks where
      o: "openStream ''Failed to update code'' res = Inr (chunks, ReadRejects)" ..
    obtain code where
      "readCode [] s1 chunks = ([] @ concat chunks, s1\<lparr>generatedCode := code\<rparr>)"
      using readCode_session by blast
    with o have "\<exists>rs. handleChatMessage_try res analyticsRes msg s s1 =
        Inl (ReadError, s1\<lparr>generatedCode := code\<rparr>, rs)"
      by (simp add: handleChatMessage_try_def Let_def)
    then show ?thesis by blast
  qed
qed

lemma generateAppIdea_try_result:
  "\<exists>e rs. generateAppIdea_try res s s1 =
     (case completedChunks res of
        None \<Rightarrow> Inl (e, s1, rs)
      | Some chunks \<Rightarrow> Inr (s1\<lparr>prompt := trim (concat chunks)\<rparr>, rs))"
proof (cases "completedChunks res")
  case None
  from openStream_failed [OF None, of "''Failed to generate idea''"]
  have "\<exists>e rs. generateAppIdea_try res s s1 = Inl (e, s1, rs)"
    by (auto simp: generateAppIdea_try_def Let_def)
  with None show ?thesis by simp
next
  case (Some chunks)
  from openStream_completed [OF Some, of "''Failed to generate idea''"]
  have "\<exists>rs. generateAppIdea_try res s s1 = Inr (s1\<lparr>prompt := trim (concat chunks)\<rparr>, rs)"
    by (simp add: generateAppIdea_try_def Let_def readText_concat)
  with Some show ?thesis by simp
qed

lemma refinePrompt_try_result:
  "\<exists>e rs. refinePrompt_try res s s1 =
     (case completedChunks res of
        None \<Rightarrow> Inl (e, s1, rs)
      | Some chunks \<Rightarrow> Inr (s1\<lparr>prompt := trim (concat chunks)\<rparr>, rs))"
proof (cases "completedChunks res")
  case None
  from openStream_failed [OF None, of "''Failed to refine prompt''"]
  have "\<exists>e rs. refinePrompt_try res s s1 = Inl (e, s1, rs)"
    by (auto simp: refinePrompt_try_def Let_def)
  with None show ?thesis by simp
next
  case (Some chunks)
  from openStream_completed [OF Some, of "''Failed to refine prompt''"]
  have "\<exists>rs. refinePrompt_try res s s1 = Inr (s1\<lparr>prompt := trim (concat chunks)\<rparr>, rs)"
    by (simp add: refinePrompt_try_def Let_def readText_concat)
  with Some show ?thesis by simp
qed

section \<open>Analytics merge\<close>

text \<open>
  C1 (as amended). For records \<open>A\<close> and \<open>B\<close> whose prompt and response counts are
  integers, and for which the sum of the two prompt counts, the sum of the two response
  counts and the sum of all four are safe integers (of magnitude below \<open>2^53\<close>),
  merging \<open>A\<close> into an empty cumulative record and then merging \<open>B\<close> yields a cumulative
  total exactly equal to the sum of the four counts; it equals
  \<open>A.totalTokens + B.totalTokens\<close> when the total of each record is the sum of its
  prompt and response counts.
\<close>

theorem merge_twice_cumulative_total:
  assumes "promptTokens A = Integer pa" and "responseTokens A = Integer ra"
    and "promptTokens B = Integer pb" and "responseTokens B = Integer rb"
    and "safeInteger (pa + pb)" and "safeInteger (ra + rb)"
    and "safeInteger ((pa + pb) + (ra + rb))"
  shows "cumulativeTotalTokens (mergeTokenAnalytics (Some (mergeTokenAnalytics None A)) B) =
           Integer ((pa + pb) + (ra + rb))
       \<and> (totalTokens A = Integer ta \<and> totalTokens B = Integer tb \<and>
          ta = pa + ra \<and> tb = pb + rb \<longrightarrow>
          cumulativeTotalTokens (mergeTokenAnalytics (Some (mergeTokenAnalytics None A)) B) =
            Integer (ta + tb))"
proof -
  have "cumulativeTotalTokens (mergeTokenAnalytics (Some (mergeTokenAnalytics None A)) B) =
      jsAdd (jsAdd (Integer pa) (Integer pb)) (jsAdd (Integer ra) (Integer rb))"
    using assms(1-4) by (simp add: mergeTokenAnalytics_def Let_def)
  also have "\<dots> = jsAdd (Integer (pa + pb)) (Integer (ra + rb))"
    using roundToDouble_safe [OF assms(5)] roundToDouble_safe [OF assms(6)] by simp
  also have "\<dots> = Integer ((pa + pb) + (ra + rb))"
    using roundToDouble_safe [OF assms(7)] by simp
  finally show ?thesis by (simp add: algebra_simps)
qed

theorem merge_twice_cumulative_total_witness:
  "promptTokens (exchange 10 20 30) = Integer 10
   \<and> responseTokens (exchange 10 20 30) = Integer 20
   \<and> totalTokens (exchange 10 20 30) = Integer 30
   \<and> promptTokens (exchange 5 7 12) = Integer 5
   \<and> responseTokens (exchange 5 7 12) = Integer 7
   \<and> totalTokens (exchange 5 7 12) = Integer 12
   \<and> safeInteger (10 + 5) \<and> safeInteger (20 + 7) \<and> safeInteger ((10 + 5) + (20 + 7))
   \<and> cumulativeTotalTokens
       (mergeTokenAnalytics (Some (mergeTokenAnalytics None (exchange 10 20 30)))
          (exchange 5 7 12)) = Integer 42"
  using merge_twice_cumulative_total
    [of "exchange 10 20 30" 10 20 "exchange 5 7 12" 5 7 30 12]
  by (simp add: exchange_def safeInteger_def)

text \<open>
  The claim as written fails for an exchange whose reported total is not the sum of
  its two parts (totals 35 and 12, cumulative total 42), and for counts whose sum is
  not a double: the prompt counts \<open>2^53\<close> and 1, with totals equal to them, give the
  cumulative total \<open>2^53\<close>.
\<close>

theorem merge_twice_total_counterexample:
  "cumulativeTotalTokens
     (mergeTokenAnalytics (Some (mergeTokenAnalytics None (exchange 10 20 35)))
        (exchange 5 7 12)) = Integer 42
   \<and> Integer 42 \<noteq> Integer (35 + 12)
   \<and> cumulativeTotalTokens
       (mergeTokenAnalytics
          (Some (mergeTokenAnalytics None (exchange 9007199254740992 0 9007199254740992)))
          (exchange 1 0 1)) = Integer 9007199254740992
   \<and> Integer 9007199254740992 \<noteq> Integer (9007199254740992 + 1)"
  by code_simp

section \<open>Streaming response accumulator\<close>

text \<open>
  C2 (as amended). For every sequence of text chunks whose concatenation consists of,
  in this order, whitespace (possibly none), three backticks, directly after them one
  of the tags \<open>typescript\<close>, \<open>javascript\<close>, \<open>tsx\<close> or no tag, directly after that one
  line feed, an inner content with no three backticks in a row, three backticks, and
  whitespace (possibly none), the code displayed after the last chunk is the inner
  content with its leading and trailing whitespace removed, however the text is split
  into chunks.
\<close>

theorem accumulator_strips_fenced_block:
  assumes "concat chunks = pre @ ''```'' @ tag @ ''\<newline>'' @ inner @ ''```'' @ post"
    and "tag \<in> {'''', ''typescript'', ''javascript'', ''tsx''}"
    and "\<forall>c \<in> set pre. isWhiteSpace c" and "\<forall>c \<in> set post. isWhiteSpace c"
    and "\<not> hasFence inner"
  shows "generatedCode (snd (readCode [] s chunks)) = trim inner"
proof -
  from assms(1) have "chunks \<noteq> []" by auto
  then have "generatedCode (snd (readCode [] s chunks)) = removeCodeFormatting (concat chunks)"
    by (simp add: readCode_result)
  with assms(1) removeCodeFormatting_block [OF assms(2-5)] show ?thesis by simp
qed

theorem accumulator_strips_fenced_block_witness:
  "concat ['' ```ts'', ''x\<newline>export default function App(){...}\<newline>``'', ''`\<newline>''] =
     '' '' @ ''```'' @ ''tsx'' @ ''\<newline>'' @ ''export default function App(){...}\<newline>'' @
     ''```'' @ ''\<newline>''
   \<and> ''tsx'' \<in> {'''', ''typescript'', ''javascript'', ''tsx''}
   \<and> isWhiteSpace CHR '' '' \<and> isWhiteSpace CHR ''\<newline>''
   \<and> \<not> hasFence ''export default function App(){...}\<newline>''
   \<and> generatedCode (snd (readCode [] (initialSession ''gpt'' ''openai'')
        ['' ```ts'', ''x\<newline>export default function App(){...}\<newline>``'', ''`\<newline>''])) =
       ''export default function App(){...}''"
  using accumulator_strips_fenced_block
    [of "['' ```ts'', ''x\<newline>export default function App(){...}\<newline>``'', ''`\<newline>'']"
        "'' ''" "''tsx''" "''export default function App(){...}\<newline>''" "''\<newline>''"
        "initialSession ''gpt'' ''openai''"]
  by (simp add: trim_def isWhiteSpace_def)

text \<open>
  The claim as written fails for a block tagged with another language, which is
  displayed with its fences; for a block with prose around it, which is displayed
  with the prose; for a block whose lines end in carriage return and line feed, which
  is displayed with its fences; and for a block fenced by four backticks, of which
  one backtick stays on either side.
\<close>

theorem accumulator_fenced_block_counterexample:
  "generatedCode (snd (readCode [] (initialSession ''gpt'' ''openai'')
      [''```py'', ''thon\<newline>print(1)\<newline>```''])) \<noteq> trim ''print(1)\<newline>''
   \<and> generatedCode (snd (readCode [] (initialSession ''gpt'' ''openai'')
      [''Here it is:\<newline>```tsx\<newline>'', ''foo\<newline>```''])) \<noteq> trim ''foo\<newline>''
   \<and> generatedCode (snd (readCode [] (initialSession ''gpt'' ''openai'')
      [''```tsx'' @ [CHR 0x0D, CHR 0x0A], ''foo'' @ [CHR 0x0D, CHR 0x0A] @ ''```''])) \<noteq>
     trim (''foo'' @ [CHR 0x0D, CHR 0x0A])
   \<and> generatedCode (snd (readCode [] (initialSession ''gpt'' ''openai'')
      [''````\<newline>'', ''foo\<newline>````''])) \<noteq> trim ''foo\<newline>''"
  by (simp add: removeCodeFormatting_def matchFence_def matchAfterTag_def trim_def
      isWhiteSpace_def Let_def)

section \<open>Settings on a provider change\<close>

text \<open>
  C3 (as amended). When the provider changes, the effect sets \<open>maxTokens\<close> to the
  default of the new provider if that is one of the four named providers and keeps it
  otherwise; it sets \<open>temperature\<close> to the default \<open>0.0\<close> if the new provider is
  \<open>deepseek\<close> and keeps the current temperature otherwise; the other settings stay.
\<close>

theorem provider_change_settings:
  "(p \<in> {''anthropic'', ''openai'', ''google'', ''deepseek''} \<longrightarrow>
      maxTokens (updateSettingsEffect p prev) = maxTokens (getDefaultSettings p))
   \<and> (p \<notin> {''anthropic'', ''openai'', ''google'', ''deepseek''} \<longrightarrow>
      maxTokens (updateSettingsEffect p prev) = maxTokens prev)
   \<and> (p = ''deepseek'' \<longrightarrow>
      temperature (updateSettingsEffect p prev) = temperature (getDefaultSettings p))
   \<and> (p \<noteq> ''deepseek'' \<longrightarrow> temperature (updateSettingsEffect p prev) = temperature prev)
   \<and> topP (updateSettingsEffect p prev) = topP prev
   \<and> streamOutput (updateSettingsEffect p prev) = streamOutput prev
   \<and> frequencyPenalty (updateSettingsEffect p prev) = frequencyPenalty prev
   \<and> presencePenalty (updateSettingsEffect p prev) = presencePenalty prev"
  by (simp add: updateSettingsEffect_def getDefaultSettings_def)

theorem provider_change_settings_witness:
  "''google'' \<in> {''anthropic'', ''openai'', ''google'', ''deepseek''}
   \<and> ''google'' \<noteq> ''deepseek''
   \<and> maxTokens (updateSettingsEffect ''google''
        ((getDefaultSettings ''openai'')\<lparr>temperature := 3 / 10, topP := 1 / 2\<rparr>)) = 1000000
   \<and> temperature (updateSettingsEffect ''google''
        ((getDefaultSettings ''openai'')\<lparr>temperature := 3 / 10, topP := 1 / 2\<rparr>)) = 3 / 10
   \<and> topP (updateSettingsEffect ''google''
        ((getDefaultSettings ''openai'')\<lparr>temperature := 3 / 10, topP := 1 / 2\<rparr>)) = 1 / 2"
  using provider_change_settings
    [of "''google''" "(getDefaultSettings ''openai'')\<lparr>temperature := 3 / 10, topP := 1 / 2\<rparr>"]
  by (simp add: getDefaultSettings_def)

text \<open>
  A session that starts on \<open>anthropic\<close>, switches to \<open>deepseek\<close> and then to \<open>openai\<close>
  keeps the temperature \<open>0.0\<close>; the default of \<open>openai\<close> is \<open>0.7\<close>.
\<close>

theorem provider_change_temperature_counterexample:
  "temperature (updateSettingsEffect ''openai''
      (updateSettingsEffect ''deepseek'' (getDefaultSettings ''anthropic''))) \<noteq>
   temperature (getDefaultSettings ''openai'')"
  by (simp add: updateSettingsEffect_def getDefaultSettings_def)

section \<open>Fresh creation: what is persisted\<close>

text \<open>
  C4 (as amended). In a fresh-creation run that completes its stream, the code sent to
  the generated-app store is the raw accumulated stream buffer, the concatenation of
  all chunks; the displayed code is that buffer with its code-fence formatting removed.
\<close>

theorem persisted_code_is_raw_buffer:
  assumes "prompt s \<noteq> []" and "status s = Initial" and "completedChunks res = Some chunks"
  shows "(GeneratedApps m p c \<in> set (snd (createApp res generatedAppResponse analyticsRes s)) \<longleftrightarrow>
            m = model s \<and> p = prompt s \<and> c = concat chunks)
       \<and> generatedCode (fst (createApp res generatedAppResponse analyticsRes s)) =
           removeCodeFormatting (concat chunks)"
proof -
  have "createApp res generatedAppResponse analyticsRes s =
      (case createApp_try res generatedAppResponse analyticsRes s (createApp_reset s) of
         Inl (e, s', rs) \<Rightarrow> (s'\<lparr>status := Initial\<rparr>, rs)
       | Inr (s', rs) \<Rightarrow> (s', rs))"
    using assms(1,2) by (simp add: createApp_def)
  then show ?thesis
    unfolding createApp_completed [OF assms]
    by (auto simp: Let_def updateTokenAnalytics_def
        split: jsonResponse.splits option.splits)
qed

theorem persisted_code_is_raw_buffer_witness:
  "prompt (userSession Initial ''calc'' [] None) \<noteq> []
   \<and> status (userSession Initial ''calc'' [] None) = Initial
   \<and> completedChunks fencedAnswer = Some [''```ts'', ''x\<newline>foo\<newline>```'']
   \<and> GeneratedApps ''gpt'' ''calc'' ''```tsx\<newline>foo\<newline>```'' \<in>
       set (snd (createApp fencedAnswer (JsonResponse True (Some (Some ''app1'')))
         (JsonResponse False None) (userSession Initial ''calc'' [] None)))
   \<and> generatedCode (fst (createApp fencedAnswer (JsonResponse True (Some (Some ''app1'')))
         (JsonResponse False None) (userSession Initial ''calc'' [] None))) = ''foo''"
  using persisted_code_is_raw_buffer
    [of "userSession Initial ''calc'' [] None" fencedAnswer "[''```ts'', ''x\<newline>foo\<newline>```'']"
        "''gpt''" "''calc''" "''```tsx\<newline>foo\<newline>```''"
        "JsonResponse True (Some (Some ''app1''))" "JsonResponse False None"]
  by (simp add: userSession_def initialSession_def fencedAnswer_def removeCodeFormatting_def
      matchFence_def matchAfterTag_def trim_def isWhiteSpace_def)

text \<open>
  For the answer \<open>fencedAnswer\<close> the store receives the text with its fences; a request
  carrying the displayed code \<open>foo\<close> is not sent.
\<close>

theorem persisted_code_counterexample:
  "GeneratedApps ''gpt'' ''calc'' ''```tsx\<newline>foo\<newline>```'' \<in>
   set (snd (createApp fencedAnswer (JsonResponse True (Some (Some ''app1'')))
        (JsonResponse False None) (userSession Initial ''calc'' [] None)))
   \<and> GeneratedApps ''gpt'' ''calc''
     (generatedCode (fst (createApp fencedAnswer (JsonResponse True (Some (Some ''app1'')))
        (JsonResponse False None) (userSession Initial ''calc'' [] None)))) \<notin>
   set (snd (createApp fencedAnswer (JsonResponse True (Some (Some ''app1'')))
        (JsonResponse False None) (userSession Initial ''calc'' [] None)))"
  by (simp add: createApp_def createApp_try_def createApp_reset_def openStream_def
      userSession_def initialSession_def fencedAnswer_def removeCodeFormatting_def
      matchFence_def matchAfterTag_def trim_def isWhiteSpace_def Let_def)

section \<open>Entry guards\<close>

text \<open>
  C5. An action whose entry guard fails sends no request and leaves the session as it
  is: fresh creation, idea generation and prompt refinement when the status is not
  \<open>initial\<close>; chat refinement when the status is not \<open>created\<close> or no code has been
  generated.
\<close>

theorem entry_guards_are_noops:
  "(status s \<noteq> Initial \<longrightarrow>
      createApp res generatedAppResponse analyticsRes s = (s, []) \<and>
      generateAppIdea res s = (s, []) \<and>
      refinePrompt res s = (s, []))
   \<and> (status s \<noteq> Created \<or> generatedCode s = [] \<longrightarrow>
      handleChatMessage res analyticsRes msg s = (s, []))"
  by (auto simp: createApp_def generateAppIdea_def refinePrompt_def handleChatMessage_def)

theorem entry_guards_are_noops_witness:
  "status (userSession Creating ''calc'' [] None) = Creating
   \<and> generatedCode (userSession Creating ''calc'' [] None) = []
   \<and> createApp fencedAnswer (JsonResponse True (Some (Some ''app1''))) JsonFetchRejects
       (userSession Creating ''calc'' [] None) = (userSession Creating ''calc'' [] None, [])
   \<and> generateAppIdea fencedAnswer (userSession Creating ''calc'' [] None) =
       (userSession Creating ''calc'' [] None, [])
   \<and> refinePrompt fencedAnswer (userSession Creating ''calc'' [] None) =
       (userSession Creating ''calc'' [] None, [])
   \<and> handleChatMessage fencedAnswer JsonFetchRejects ''bigger''
       (userSession Creating ''calc'' [] None) = (userSession Creating ''calc'' [] None, [])"
  using entry_guards_are_noops
    [of "userSession Creating ''calc'' [] None" fencedAnswer
        "JsonResponse True (Some (Some ''app1''))" JsonFetchRejects "''bigger''"]
  by (simp add: userSession_def)

section \<open>Fresh creation: a store that answers non-OK\<close>

text \<open>
  C6. When the code stream of a fresh creation completes and the generated-app store
  answers with a non-OK status, the run ends with status \<open>initial\<close>, the identifier of
  the session is the one it had before the run, the requests of the run are the
  code-generation request and the store request (no token-analytics request), and the
  streamed code stays displayed.
\<close>

theorem save_not_ok_ends_initial:
  assumes "prompt s \<noteq> []" and "status s = Initial" and "completedChunks res = Some chunks"
  shows "status (fst (createApp res (JsonResponse False v) analyticsRes s)) = Initial
       \<and> currentGeneratedAppId (fst (createApp res (JsonResponse False v) analyticsRes s)) =
           currentGeneratedAppId s
       \<and> snd (createApp res (JsonResponse False v) analyticsRes s) =
           [GenerateCode (model s) [\<lparr>role = ''user'', content = prompt s\<rparr>] (aiSettings s),
            GeneratedApps (model s) (prompt s) (concat chunks)]
       \<and> (\<forall>m p c i. TokenAnalyticsRequest m p c i \<notin>
             set (snd (createApp res (JsonResponse False v) analyticsRes s)))
       \<and> generatedCode (fst (createApp res (JsonResponse False v) analyticsRes s)) =
           removeCodeFormatting (concat chunks)"
proof -
  have "createApp res (JsonResponse False v) analyticsRes s =
      ((createApp_reset s)\<lparr>generatedCode := removeCodeFormatting (concat chunks),
                            status := Initial\<rparr>,
       [GenerateCode (model s) [\<lparr>role = ''user'', content = prompt s\<rparr>] (aiSettings s),
        GeneratedApps (model s) (prompt s) (concat chunks)])"
    unfolding createApp_def createApp_completed [OF assms] using assms(1,2)
    by (simp add: Let_def)
  then show ?thesis by (simp add: createApp_reset_def)
qed

theorem save_not_ok_ends_initial_witness:
  "prompt (userSession Initial ''calc'' [] None) \<noteq> []
   \<and> status (userSession Initial ''calc'' [] None) = Initial
   \<and> completedChunks fencedAnswer = Some [''```ts'', ''x\<newline>foo\<newline>```'']
   \<and> status (fst (createApp fencedAnswer (JsonResponse False None) (JsonResponse True None)
        (userSession Initial ''calc'' [] None))) = Initial
   \<and> currentGeneratedAppId (fst (createApp fencedAnswer (JsonResponse False None)
        (JsonResponse True None) (userSession Initial ''calc'' [] None))) = None
   \<and> length (snd (createApp fencedAnswer (JsonResponse False None) (JsonResponse True None)
        (userSession Initial ''calc'' [] None))) = 2
   \<and> generatedCode (fst (createApp fencedAnswer (JsonResponse False None)
        (JsonResponse True None) (userSession Initial ''calc'' [] None))) = ''foo''"
  using save_not_ok_ends_initial
    [of "userSession Initial ''calc'' [] None" fencedAnswer "[''```ts'', ''x\<newline>foo\<newline>```'']"
        None "JsonResponse True None"]
  by (simp add: userSession_def initialSession_def fencedAnswer_def removeCodeFormatting_def
      matchFence_def matchAfterTag_def trim_def isWhiteSpace_def)

section \<open>Chat refinement: failure before the stream completes\<close>

text \<open>
  C7. When a chat refinement passes its guard and its stream does not complete (the
  request rejects, the response is not OK or has no body, or a read rejects), the
  status is \<open>created\<close> again and the refinement history of the session is unchanged:
  the user message is not committed.
\<close>

theorem failed_refinement_keeps_history:
  assumes "generatedCode s \<noteq> []" and "status s = Created" and "completedChunks res = None"
  shows "status (fst (handleChatMessage res analyticsRes msg s)) = Created
       \<and> refinementMessages (fst (handleChatMessage res analyticsRes msg s)) = refinementMessages s"
proof -
  from handleChatMessage_incomplete [OF assms(3)] obtain e code rs where
    "handleChatMessage_try res analyticsRes msg s (s\<lparr>status := Updating\<rparr>) =
       Inl (e, s\<lparr>status := Updating, generatedCode := code\<rparr>, rs)"
    by blast
  with assms(1,2) show ?thesis by (simp add: handleChatMessage_def)
qed

theorem failed_refinement_keeps_history_witness:
  "generatedCode (userSession Created ''calc'' ''foo'' (Some ''app0'')) \<noteq> []
   \<and> status (userSession Created ''calc'' ''foo'' (Some ''app0'')) = Created
   \<and> completedChunks brokenAnswer = None
   \<and> status (fst (handleChatMessage brokenAnswer JsonFetchRejects ''bigger''
        (userSession Created ''calc'' ''foo'' (Some ''app0'')))) = Created
   \<and> refinementMessages (fst (handleChatMessage brokenAnswer JsonFetchRejects ''bigger''
        (userSession Created ''calc'' ''foo'' (Some ''app0'')))) = []"
  using failed_refinement_keeps_history
    [of "userSession Created ''calc'' ''foo'' (Some ''app0'')" brokenAnswer JsonFetchRejects
        "''bigger''"]
  by (simp add: userSession_def initialSession_def brokenAnswer_def)

section \<open>Prompt-assist actions\<close>

text \<open>
  C8. Started in status \<open>initial\<close>, idea generation and prompt refinement end in status
  \<open>initial\<close> whether the stream completes or not. When it completes, the prompt becomes
  the trimmed concatenation of the chunks, whatever the prompt was before; when it
  does not, the prompt is unchanged. (Prompt refinement runs only on a non-empty
  prompt.)
\<close>

theorem prompt_assist_restores_initial:
  assumes "status s = Initial"
  shows "status (fst (generateAppIdea res s)) = Initial
       \<and> status (fst (refinePrompt res s)) = Initial
       \<and> prompt (fst (generateAppIdea res s)) =
           (case completedChunks res of
              Some chunks \<Rightarrow> trim (concat chunks)
            | None \<Rightarrow> prompt s)
       \<and> (prompt s \<noteq> [] \<longrightarrow>
            prompt (fst (refinePrompt res s)) =
              (case completedChunks res of
                 Some chunks \<Rightarrow> trim (concat chunks)
               | None \<Rightarrow> prompt s))"
proof -
  obtain e rs where
    "generateAppIdea_try res s (s\<lparr>status := Brainstorming\<rparr>) =
       (case completedChunks res of
          None \<Rightarrow> Inl (e, s\<lparr>status := Brainstorming\<rparr>, rs)
        | Some chunks \<Rightarrow> Inr (s\<lparr>status := Brainstorming, prompt := trim (concat chunks)\<rparr>, rs))"
    using generateAppIdea_try_result [of res s "s\<lparr>status := Brainstorming\<rparr>"] by auto
  then have idea: "status (fst (generateAppIdea res s)) = Initial"
    "prompt (fst (generateAppIdea res s)) =
       (case completedChunks res of Some chunks \<Rightarrow> trim (concat chunks) | None \<Rightarrow> prompt s)"
    using assms by (simp_all add: generateAppIdea_def split: option.splits)
  obtain e' rs' where
    "refinePrompt_try res s (s\<lparr>status := Refining\<rparr>) =
       (case completedChunks res of
          None \<Rightarrow> Inl (e', s\<lparr>status := Refining\<rparr>, rs')
        | Some chunks \<Rightarrow> Inr (s\<lparr>status := Refining, prompt := trim (concat chunks)\<rparr>, rs'))"
    using refinePrompt_try_result [of res s "s\<lparr>status := Refining\<rparr>"] by auto
  then have refine: "status (fst (refinePrompt res s)) = Initial"
    "prompt s \<noteq> [] \<longrightarrow> prompt (fst (refinePrompt res s)) =
       (case completedChunks res of Some chunks \<Rightarrow> trim (concat chunks) | None \<Rightarrow> prompt s)"
    using assms by (simp_all add: refinePrompt_def split: option.splits)
  from idea refine show ?thesis by simp
qed

theorem prompt_assist_restores_initial_witness:
  "status (userSession Initial ''calc'' [] None) = Initial
   \<and> prompt (userSession Initial ''calc'' [] None) \<noteq> []
   \<and> status (fst (generateAppIdea plainAnswer (userSession Initial ''calc'' [] None))) = Initial
   \<and> status (fst (refinePrompt plainAnswer (userSession Initial ''calc'' [] None))) = Initial
   \<and> prompt (fst (generateAppIdea plainAnswer (userSession Initial ''calc'' [] None))) =
       ''A todo list app''
   \<and> prompt (fst (refinePrompt plainAnswer (userSession Initial ''calc'' [] None))) =
       ''A todo list app''"
  using prompt_assist_restores_initial [of "userSession Initial ''calc'' [] None" plainAnswer]
  by (simp add: userSession_def initialSession_def plainAnswer_def trim_def isWhiteSpace_def)

section \<open>Fresh creation: the identifier of the persisted artifact\<close>

text \<open>
  C9 (as amended). The reset step of a fresh creation clears the code, the analytics
  display flag, the cumulative analytics, the chat visibility and the refinement
  history and keeps the identifier. A fresh creation that passes its guard ends with
  the identifier the session had before unless its persistence call succeeds, in which
  case it ends with the identifier the store returned, also when the run fails
  afterwards; a run whose persistence call does not succeed ends in status \<open>initial\<close>
  with the old identifier.
\<close>

theorem fresh_creation_keeps_identifier:
  "currentGeneratedAppId (createApp_reset s) = currentGeneratedAppId s
   \<and> generatedCode (createApp_reset s) = []
   \<and> \<not> showAnalytics (createApp_reset s)
   \<and> tokenAnalytics (createApp_reset s) = None
   \<and> \<not> chatVisible (createApp_reset s)
   \<and> refinementMessages (createApp_reset s) = []
   \<and> (prompt s \<noteq> [] \<and> status s = Initial \<longrightarrow>
        currentGeneratedAppId (fst (createApp res generatedAppResponse analyticsRes s)) =
          (case persistedId res generatedAppResponse of
             None \<Rightarrow> currentGeneratedAppId s
           | Some newId \<Rightarrow> newId)
        \<and> (persistedId res generatedAppResponse = None \<longrightarrow>
             status (fst (createApp res generatedAppResponse analyticsRes s)) = Initial))"
proof -
  have reset: "currentGeneratedAppId (createApp_reset s) = currentGeneratedAppId s
     \<and> generatedCode (createApp_reset s) = []
     \<and> \<not> showAnalytics (createApp_reset s)
     \<and> tokenAnalytics (createApp_reset s) = None
     \<and> \<not> chatVisible (createApp_reset s)
     \<and> refinementMessages (createApp_reset s) = []"
    by (simp add: createApp_reset_def)
  have run: "currentGeneratedAppId (fst (createApp res generatedAppResponse analyticsRes s)) =
          (case persistedId res generatedAppResponse of
             None \<Rightarrow> currentGeneratedAppId s
           | Some newId \<Rightarrow> newId)
        \<and> (persistedId res generatedAppResponse = None \<longrightarrow>
             status (fst (createApp res generatedAppResponse analyticsRes s)) = Initial)"
    if g: "prompt s \<noteq> []" "status s = Initial"
  proof -
    have c: "createApp res generatedAppResponse analyticsRes s =
      (case createApp_try res generatedAppResponse analyticsRes s (createApp_reset s) of
         Inl (e, s', rs) \<Rightarrow> (s'\<lparr>status := Initial\<rparr>, rs)
       | Inr (s', rs) \<Rightarrow> (s', rs))"
      using g by (simp add: createApp_def)
    show ?thesis
    proof (cases "completedChunks res")
      case None
      from createApp_incomplete [OF None] obtain e code where
        "createApp_try res generatedAppResponse analyticsRes s (createApp_reset s) =
           Inl (e, (createApp_reset s)\<lparr>generatedCode := code\<rparr>,
                [GenerateCode (model s) [\<lparr>role = ''user'', content = prompt s\<rparr>] (aiSettings s)])"
        by blast
      with c None reset show ?thesis by (simp add: persistedId_def)
    next
      case (Some chunks)
      show ?thesis
        unfolding c createApp_completed [OF g Some] using reset Some
        by (auto simp: Let_def persistedId_def updateTokenAnalytics_def
            split: jsonResponse.splits option.splits)
    qed
  qed
  from reset run show ?thesis by blast
qed

theorem fresh_creation_keeps_identifier_witness:
  "prompt (userSession Initial ''calc'' ''old'' (Some ''app0'')) \<noteq> []
   \<and> status (userSession Initial ''calc'' ''old'' (Some ''app0'')) = Initial
   \<and> persistedId fencedAnswer (JsonResponse False None) = None
   \<and> currentGeneratedAppId (createApp_reset (userSession Initial ''calc'' ''old'' (Some ''app0''))) =
       Some ''app0''
   \<and> currentGeneratedAppId (fst (createApp fencedAnswer (JsonResponse False None)
        JsonFetchRejects (userSession Initial ''calc'' ''old'' (Some ''app0'')))) = Some ''app0''
   \<and> status (fst (createApp fencedAnswer (JsonResponse False None)
        JsonFetchRejects (userSession Initial ''calc'' ''old'' (Some ''app0'')))) = Initial"
  using fresh_creation_keeps_identifier
    [of "userSession Initial ''calc'' ''old'' (Some ''app0'')" fencedAnswer
        "JsonResponse False None" JsonFetchRejects]
  by (simp add: userSession_def initialSession_def fencedAnswer_def persistedId_def)

text \<open>
  The claim as written fails for a run whose store answers and whose analytics request
  rejects: it ends in status \<open>initial\<close>, a failed run, with the new identifier.
\<close>

theorem fresh_creation_identifier_counterexample:
  "status (fst (createApp fencedAnswer (JsonResponse True (Some (Some ''app1'')))
      JsonFetchRejects (userSession Initial ''calc'' ''old'' (Some ''app0'')))) = Initial
   \<and> currentGeneratedAppId (fst (createApp fencedAnswer (JsonResponse True (Some (Some ''app1'')))
      JsonFetchRejects (userSession Initial ''calc'' ''old'' (Some ''app0'')))) = Some ''app1''
   \<and> currentGeneratedAppId (userSession Initial ''calc'' ''old'' (Some ''app0'')) = Some ''app0''"
  by (simp add: createApp_def createApp_try_def createApp_reset_def openStream_def
      userSession_def initialSession_def fencedAnswer_def Let_def)

section \<open>Loading a saved generation\<close>

text \<open>
  C10. In every session, whatever its status, loading a saved generation sets the
  status to \<open>created\<close>, replaces the displayed code, the prompt, the model and the
  identifier by those of the saved record, makes the chat visible, leaves the AI
  settings as they are, and sends no request.
\<close>

theorem load_generation_unguarded:
  "status (fst (handleLoadGeneration generation s)) = Created
   \<and> generatedCode (fst (handleLoadGeneration generation s)) = appCode (generatedApp generation)
   \<and> prompt (fst (handleLoadGeneration generation s)) = appPrompt (generatedApp generation)
   \<and> model (fst (handleLoadGeneration generation s)) = appModel (generatedApp generation)
   \<and> currentGeneratedAppId (fst (handleLoadGeneration generation s)) =
       Some (appId (generatedApp generation))
   \<and> chatVisible (fst (handleLoadGeneration generation s))
   \<and> aiSettings (fst (handleLoadGeneration generation s)) = aiSettings s
   \<and> snd (handleLoadGeneration generation s) = []"
  by (simp add: handleLoadGeneration_def Let_def)

theorem load_generation_unguarded_witness:
  "status (userSession Creating ''calc'' ''fo'' None) = Creating
   \<and> status (fst (handleLoadGeneration savedCalculator (userSession Creating ''calc'' ''fo'' None))) =
       Created
   \<and> generatedCode (fst (handleLoadGeneration savedCalculator
       (userSession Creating ''calc'' ''fo'' None))) = ''export default 1''
   \<and> currentGeneratedAppId (fst (handleLoadGeneration savedCalculator
       (userSession Creating ''calc'' ''fo'' None))) = Some ''app7''
   \<and> aiSettings (fst (handleLoadGeneration savedCalculator
       (userSession Creating ''calc'' ''fo'' None))) = getDefaultSettings ''openai''"
  using load_generation_unguarded [of savedCalculator "userSession Creating ''calc'' ''fo'' None"]
  by (simp add: userSession_def initialSession_def savedCalculator_def)

end
